theory Spec2Isabelle
  imports Complex_Main
begin

section \<open>JavaScript values\<close>

text \<open>
  The handlers of \<^verbatim>\<open>AdminPanel\<close> work on untyped payloads: \<^verbatim>\<open>response.data\<close> of an
  axios response, the thrown \<^verbatim>\<open>err: any\<close>, and the result of \<^verbatim>\<open>JSON.parse\<close>. They are
  values of the following type, \<^verbatim>\<open>undefined\<close> included since a missing property reads as it.
  A number is its mathematical value; the code only ever tests one for truthiness.
\<close>

datatype jsval =
    JUndefined
  | JNull
  | JBool bool
  | JNum rat
  | JStr string
  | JArr "jsval list"
  | JObj "(string \<times> jsval) list"

text \<open>What a \<^verbatim>\<open>try\<close> block of the component can catch.\<close>

datatype thrown =
    SyntaxError
  | TypeError
  | QuotaExceededError  \<comment> \<open>\<^verbatim>\<open>localStorage.setItem\<close> when the store does not take the entry\<close>
  | AxiosError jsval  \<comment> \<open>a rejected request; the argument is \<^verbatim>\<open>err.response\<close>, \<^verbatim>\<open>undefined\<close> when none came\<close>

text \<open>\<^verbatim>\<open>if (v)\<close>, \<^verbatim>\<open>!v\<close>, \<^verbatim>\<open>v || w\<close>, \<^verbatim>\<open>v && w\<close>: JavaScript's ToBoolean.\<close>

fun truthy :: "jsval \<Rightarrow> bool" where
  "truthy JUndefined = False"
| "truthy JNull = False"
| "truthy (JBool b) = b"
| "truthy (JNum n) = (n \<noteq> 0)"
| "truthy (JStr s) = (s \<noteq> [])"
| "truthy (JArr _) = True"
| "truthy (JObj _) = True"

definition js_or :: "jsval \<Rightarrow> jsval \<Rightarrow> jsval" where
  "js_or a b = (if truthy a then a else b)"

definition nullish :: "jsval \<Rightarrow> bool" where
  "nullish v = (v = JUndefined \<or> v = JNull)"

text \<open>
  \<^verbatim>\<open>v.k\<close> for the property names the component reads (\<^verbatim>\<open>success\<close>, \<^verbatim>\<open>user\<close>, \<^verbatim>\<open>id\<close>,
  \<^verbatim>\<open>data\<close>, \<^verbatim>\<open>message\<close>): a \<^verbatim>\<open>TypeError\<close> on \<^verbatim>\<open>undefined\<close> and \<^verbatim>\<open>null\<close>, the field of an
  object, and \<^verbatim>\<open>undefined\<close> on every other value, none of which has such a property.
  An object is the list of its properties; \<open>get\<close> reads the first entry of a name.
\<close>

fun get :: "jsval \<Rightarrow> string \<Rightarrow> jsval" where
  "get (JObj kvs) k = (case map_of kvs k of Some v \<Rightarrow> v | None \<Rightarrow> JUndefined)"
| "get _ k = JUndefined"

definition member :: "jsval \<Rightarrow> string \<Rightarrow> thrown + jsval" where
  "member v k = (if nullish v then Inl TypeError else Inr (get v k))"

text \<open>\<^verbatim>\<open>v?.k\<close>\<close>

definition opt_member :: "jsval \<Rightarrow> string \<Rightarrow> jsval" where
  "opt_member v k = (if nullish v then JUndefined else get v k)"

text \<open>\<^verbatim>\<open>err.response\<close> of a caught value.\<close>

fun err_response :: "thrown \<Rightarrow> jsval" where
  "err_response (AxiosError r) = r"
| "err_response _ = JUndefined"

text \<open>\<^verbatim>\<open>err.response?.data?.message\<close>\<close>

definition err_message :: "thrown \<Rightarrow> jsval" where
  "err_message err = opt_member (opt_member (err_response err) ''data'') ''message''"

section \<open>The platform\<close>

text \<open>
  Three functions of the JavaScript runtime are used and not defined by the repository,
  and whether the browser's store takes an entry is for the browser to say; the model
  takes the four as parameters.
\<close>

record platform =
  JSON_parse :: "string \<Rightarrow> jsval option"  \<comment> \<open>\<^verbatim>\<open>None\<close>: \<^verbatim>\<open>JSON.parse\<close> throws\<close>
  JSON_stringify :: "jsval \<Rightarrow> string"  \<comment> \<open>the text \<^verbatim>\<open>setItem(k, JSON.stringify(v))\<close> stores\<close>
  ToString :: "jsval \<Rightarrow> string"  \<comment> \<open>how a template literal renders a value that is no string\<close>
  storage_accepts :: "(string \<rightharpoonup> string) \<Rightarrow> string \<Rightarrow> string \<Rightarrow> bool"
    \<comment> \<open>the store, the key, the text: \<^verbatim>\<open>False\<close> when \<^verbatim>\<open>setItem\<close> throws, the quota exceeded\<close>

text \<open>\<^verbatim>\<open>`${v}`\<close>: a string is spliced in as it is.\<close>

definition template :: "platform \<Rightarrow> jsval \<Rightarrow> string" where
  "template P v = (case v of JStr s \<Rightarrow> s | _ \<Rightarrow> ToString P v)"

section \<open>State of the component and of its environment\<close>

record form =
  email :: string
  fullName :: string

datatype request =
    POST string jsval  \<comment> \<open>url, JSON body\<close>
  | GET string "(string \<times> string) list"  \<comment> \<open>url, headers\<close>

text \<open>
  The seven \<^verbatim>\<open>useState\<close> cells of \<^verbatim>\<open>AdminPanel\<close> (the second copy of the component has no
  \<^verbatim>\<open>showLogin\<close> and \<^verbatim>\<open>showRegister\<close> and never reads them), the browser's local storage,
  the requests handed to axios so far and the lines written by \<^verbatim>\<open>console.error\<close>.
\<close>

record app =
  user :: jsval
  referralData :: jsval
  loading :: bool
  error :: jsval
  showLogin :: bool
  showRegister :: bool
  formData :: form
  localStorage :: "string \<rightharpoonup> string"
  requests :: "request list"
  console :: "(string \<times> thrown) list"

definition initial :: "(string \<rightharpoonup> string) \<Rightarrow> app" where
  "initial ls = \<lparr> user = JNull, referralData = JNull, loading = False, error = JStr [],
     showLogin = True, showRegister = False, formData = \<lparr> email = [], fullName = [] \<rparr>,
     localStorage = ls, requests = [], console = [] \<rparr>"

definition API_BASE_URL :: string where
  "API_BASE_URL = ''https://api.grow100x.ai/api/v1''"

definition adminUser :: string where
  "adminUser = ''adminUser''"

text \<open>
  An \<^verbatim>\<open>async\<close> handler runs up to its next \<^verbatim>\<open>await\<close>; it has then either returned or is
  suspended on a request whose outcome the environment supplies later.
\<close>

datatype phase = Done app | Await app

fun state_of :: "phase \<Rightarrow> app" where
  "state_of (Done s) = s"
| "state_of (Await s) = s"

text \<open>The outcome of an awaited axios call: \<^verbatim>\<open>response.data\<close>, or what the call rejects with.\<close>

type_synonym outcome = "thrown + jsval"

definition send :: "request \<Rightarrow> app \<Rightarrow> app" where
  "send r s = s\<lparr>requests := requests s @ [r]\<rparr>"

section \<open>State setters and local storage\<close>

definition setUser :: "jsval \<Rightarrow> app \<Rightarrow> app" where
  "setUser v s = s\<lparr>user := v\<rparr>"

definition setReferralData :: "jsval \<Rightarrow> app \<Rightarrow> app" where
  "setReferralData v s = s\<lparr>referralData := v\<rparr>"

definition setLoading :: "bool \<Rightarrow> app \<Rightarrow> app" where
  "setLoading b s = s\<lparr>loading := b\<rparr>"

definition setError :: "jsval \<Rightarrow> app \<Rightarrow> app" where
  "setError v s = s\<lparr>error := v\<rparr>"

definition setShowLogin :: "bool \<Rightarrow> app \<Rightarrow> app" where
  "setShowLogin b s = s\<lparr>showLogin := b\<rparr>"

definition setShowRegister :: "bool \<Rightarrow> app \<Rightarrow> app" where
  "setShowRegister b s = s\<lparr>showRegister := b\<rparr>"

definition setFormData :: "form \<Rightarrow> app \<Rightarrow> app" where
  "setFormData f s = s\<lparr>formData := f\<rparr>"

text \<open>\<^verbatim>\<open>localStorage.setItem(k, v)\<close> writes the entry, or throws and writes nothing.\<close>

definition setItem :: "platform \<Rightarrow> string \<Rightarrow> string \<Rightarrow> app \<Rightarrow> thrown + app" where
  "setItem P k v s =
     (if storage_accepts P (localStorage s) k v
      then Inr (s\<lparr>localStorage := (localStorage s)(k \<mapsto> v)\<rparr>)
      else Inl QuotaExceededError)"

definition removeItem :: "string \<Rightarrow> app \<Rightarrow> app" where
  "removeItem k s = s\<lparr>localStorage := (localStorage s)(k := None)\<rparr>"

section \<open>fetchReferralData\<close>

text \<open>
  \<open>_begin\<close> is the function up to its await, where the request goes out; \<open>_settle\<close> is the
  rest, run when the request has settled. A throw inside the \<^verbatim>\<open>try\<close> block (the rejected
  request, or reading \<^verbatim>\<open>success\<close> of a body that is \<^verbatim>\<open>null\<close>) ends in \<^verbatim>\<open>console.error\<close>.
\<close>

definition summary_request :: "platform \<Rightarrow> jsval \<Rightarrow> request" where
  "summary_request P userId =
     GET (API_BASE_URL @ ''/referral/admin/summary'')
       [(''Authorization'', ''Bearer '' @ template P userId)]"

definition fetchReferralData_begin :: "platform \<Rightarrow> jsval \<Rightarrow> app \<Rightarrow> app" where
  "fetchReferralData_begin P userId s = send (summary_request P userId) s"

definition console_error :: "thrown \<Rightarrow> app \<Rightarrow> app" where
  "console_error err s = s\<lparr>console := console s @ [(''Failed to fetch referral data:'', err)]\<rparr>"

definition fetchReferralData_settle :: "outcome \<Rightarrow> app \<Rightarrow> app" where
  "fetchReferralData_settle r s =
     (case r of
        Inl err \<Rightarrow> console_error err s
      | Inr data \<Rightarrow>
          (case member data ''success'' of
             Inl err \<Rightarrow> console_error err s
           | Inr ok \<Rightarrow> if truthy ok then setReferralData (get data ''data'') s else s))"

section \<open>Session bootstrap\<close>

text \<open>
  The mount effect of the first copy of the component (\<^verbatim>\<open>page.tsx\<close>, lines 41 to 54).
  \<^verbatim>\<open>getItem\<close> gives \<^verbatim>\<open>null\<close> for a missing key, and \<^verbatim>\<open>if (savedUser)\<close> also skips the
  empty string. The \<^verbatim>\<open>catch\<close> covers the whole \<^verbatim>\<open>try\<close> block: the parse and the read of
  \<^verbatim>\<open>userData.id\<close>. \<^verbatim>\<open>fetchReferralData\<close> is called and not awaited: \<^verbatim>\<open>Await\<close> says that
  its request is in flight.
\<close>

definition useEffect_mount :: "platform \<Rightarrow> app \<Rightarrow> phase" where
  "useEffect_mount P s =
     (case localStorage s adminUser of
        None \<Rightarrow> Done s
      | Some savedUser \<Rightarrow>
          if savedUser = [] then Done s
          else (case JSON_parse P savedUser of
                  None \<Rightarrow> Done (removeItem adminUser s)
                | Some userData \<Rightarrow>
                    (let s1 = setUser userData s;
                         s2 = setShowLogin False s1;
                         s3 = setShowRegister False s2
                     in case member userData ''id'' of
                          Inl err \<Rightarrow> Done (removeItem adminUser s3)
                        | Inr userId \<Rightarrow> Await (fetchReferralData_begin P userId s3))))"

text \<open>The mount effect of the second copy (\<^verbatim>\<open>part_000\<close>, lines 39 to 50).\<close>

definition useEffect_mount' :: "platform \<Rightarrow> app \<Rightarrow> phase" where
  "useEffect_mount' P s =
     (case localStorage s adminUser of
        None \<Rightarrow> Done s
      | Some savedUser \<Rightarrow>
          if savedUser = [] then Done s
          else (case JSON_parse P savedUser of
                  None \<Rightarrow> Done (removeItem adminUser s)
                | Some userData \<Rightarrow>
                    (let s1 = setUser userData s
                     in case member userData ''id'' of
                          Inl err \<Rightarrow> Done (removeItem adminUser s1)
                        | Inr userId \<Rightarrow> Await (fetchReferralData_begin P userId s1))))"

section \<open>Credential submission\<close>

text \<open>
  Each handler is cut at its awaits. \<open>_begin\<close> is the part before the request is sent,
  \<open>_settle\<close> the part that runs when the request has settled, up to the call of
  \<^verbatim>\<open>fetchReferralData\<close> when it comes to it, \<open>_finish\<close> the rest: the end of
  \<^verbatim>\<open>fetchReferralData\<close>, which never throws, and the \<^verbatim>\<open>finally\<close> block.
  \<open>_catch\<close> is the \<^verbatim>\<open>catch\<close> block followed by the \<^verbatim>\<open>finally\<close> block.
\<close>

text \<open>
  The two requests. \<^verbatim>\<open>handleLogin\<close> posts \<^verbatim>\<open>{email: formData.email}\<close>; \<^verbatim>\<open>handleRegister\<close>
  posts \<^verbatim>\<open>formData\<close> and \<^verbatim>\<open>handleSubmit\<close> its two fields, which is the same body.
\<close>

definition login_request :: "form \<Rightarrow> request" where
  "login_request f =
     POST (API_BASE_URL @ ''/auth/admin/login'') (JObj [(''email'', JStr (email f))])"

definition register_request :: "form \<Rightarrow> request" where
  "register_request f =
     POST (API_BASE_URL @ ''/auth/admin/register'')
       (JObj [(''email'', JStr (email f)), (''fullName'', JStr (fullName f))])"

definition handleLogin_begin :: "app \<Rightarrow> app" where
  "handleLogin_begin s =
     (let s1 = setLoading True s;
          s2 = setError (JStr []) s1
      in send (login_request (formData s)) s2)"

definition handleLogin_catch :: "thrown \<Rightarrow> app \<Rightarrow> app" where
  "handleLogin_catch err s =
     setLoading False (setError (js_or (err_message err) (JStr ''Login failed'')) s)"

definition handleLogin_settle :: "platform \<Rightarrow> outcome \<Rightarrow> app \<Rightarrow> phase" where
  "handleLogin_settle P r s =
     (case r of
        Inl err \<Rightarrow> Done (handleLogin_catch err s)
      | Inr data \<Rightarrow>
          (case member data ''success'' of
             Inl err \<Rightarrow> Done (handleLogin_catch err s)
           | Inr ok \<Rightarrow>
               if truthy ok then
                 (let s1 = setUser (get data ''user'') s
                  in case setItem P adminUser (JSON_stringify P (get data ''user'')) s1 of
                       Inl err \<Rightarrow> Done (handleLogin_catch err s1)
                     | Inr s2 \<Rightarrow>
                         (let s3 = setShowLogin False s2;
                              s4 = setShowRegister False s3
                          in case member (get data ''user'') ''id'' of
                               Inl err \<Rightarrow> Done (handleLogin_catch err s4)
                             | Inr userId \<Rightarrow> Await (fetchReferralData_begin P userId s4)))
               else Done (setLoading False s)))"

definition handleLogin_finish :: "outcome \<Rightarrow> app \<Rightarrow> app" where
  "handleLogin_finish r s = setLoading False (fetchReferralData_settle r s)"

text \<open>
  The whole handler, given the outcome \<open>r1\<close> of the login request and the outcome \<open>r2\<close> of
  the summary request (read only when that request is made).
\<close>

definition handleLogin :: "platform \<Rightarrow> outcome \<Rightarrow> outcome \<Rightarrow> app \<Rightarrow> app" where
  "handleLogin P r1 r2 s =
     (case handleLogin_settle P r1 (handleLogin_begin s) of
        Done s' \<Rightarrow> s'
      | Await s' \<Rightarrow> handleLogin_finish r2 s')"

definition handleRegister_begin :: "app \<Rightarrow> app" where
  "handleRegister_begin s =
     (let s1 = setLoading True s;
          s2 = setError (JStr []) s1
      in send (register_request (formData s)) s2)"

definition handleRegister_catch :: "thrown \<Rightarrow> app \<Rightarrow> app" where
  "handleRegister_catch err s =
     setLoading False (setError (js_or (err_message err) (JStr ''Registration failed'')) s)"

definition handleRegister_settle :: "platform \<Rightarrow> outcome \<Rightarrow> app \<Rightarrow> phase" where
  "handleRegister_settle P r s =
     (case r of
        Inl err \<Rightarrow> Done (handleRegister_catch err s)
      | Inr data \<Rightarrow>
          (case member data ''success'' of
             Inl err \<Rightarrow> Done (handleRegister_catch err s)
           | Inr ok \<Rightarrow>
               if truthy ok then
                 (let s1 = setUser (get data ''user'') s
                  in case setItem P adminUser (JSON_stringify P (get data ''user'')) s1 of
                       Inl err \<Rightarrow> Done (handleRegister_catch err s1)
                     | Inr s2 \<Rightarrow>
                         (let s3 = setShowLogin False s2;
                              s4 = setShowRegister False s3
                          in case member (get data ''user'') ''id'' of
                               Inl err \<Rightarrow> Done (handleRegister_catch err s4)
                             | Inr userId \<Rightarrow> Await (fetchReferralData_begin P userId s4)))
               else Done (setLoading False s)))"

definition handleRegister_finish :: "outcome \<Rightarrow> app \<Rightarrow> app" where
  "handleRegister_finish r s = setLoading False (fetchReferralData_settle r s)"

definition handleRegister :: "platform \<Rightarrow> outcome \<Rightarrow> outcome \<Rightarrow> app \<Rightarrow> app" where
  "handleRegister P r1 r2 s =
     (case handleRegister_settle P r1 (handleRegister_begin s) of
        Done s' \<Rightarrow> s'
      | Await s' \<Rightarrow> handleRegister_finish r2 s')"

text \<open>\<^verbatim>\<open>handleSubmit\<close>, the one submission handler of the second copy.\<close>

definition handleSubmit_begin :: "app \<Rightarrow> app" where
  "handleSubmit_begin s =
     (let s1 = setLoading True s;
          s2 = setError (JStr []) s1
      in send (register_request (formData s)) s2)"

definition handleSubmit_catch :: "thrown \<Rightarrow> app \<Rightarrow> app" where
  "handleSubmit_catch err s =
     setLoading False
       (setError (js_or (err_message err) (JStr ''Failed to access dashboard'')) s)"

definition handleSubmit_settle :: "platform \<Rightarrow> outcome \<Rightarrow> app \<Rightarrow> phase" where
  "handleSubmit_settle P r s =
     (case r of
        Inl err \<Rightarrow> Done (handleSubmit_catch err s)
      | Inr data \<Rightarrow>
          (case member data ''success'' of
             Inl err \<Rightarrow> Done (handleSubmit_catch err s)
           | Inr ok \<Rightarrow>
               if truthy ok then
                 (let userData = get data ''user'';
                      s1 = setUser userData s
                  in case setItem P adminUser (JSON_stringify P userData) s1 of
                       Inl err \<Rightarrow> Done (handleSubmit_catch err s1)
                     | Inr s2 \<Rightarrow>
                         (case member userData ''id'' of
                            Inl err \<Rightarrow> Done (handleSubmit_catch err s2)
                          | Inr userId \<Rightarrow> Await (fetchReferralData_begin P userId s2)))
               else Done (setLoading False s)))"

definition handleSubmit_finish :: "outcome \<Rightarrow> app \<Rightarrow> app" where
  "handleSubmit_finish r s = setLoading False (fetchReferralData_settle r s)"

definition handleSubmit :: "platform \<Rightarrow> outcome \<Rightarrow> outcome \<Rightarrow> app \<Rightarrow> app" where
  "handleSubmit P r1 r2 s =
     (case handleSubmit_settle P r1 (handleSubmit_begin s) of
        Done s' \<Rightarrow> s'
      | Await s' \<Rightarrow> handleSubmit_finish r2 s')"

section \<open>Code generation\<close>

definition code_request :: "platform \<Rightarrow> jsval \<Rightarrow> request" where
  "code_request P userId =
     GET (API_BASE_URL @ ''/referral/admin/code'')
       [(''Authorization'', ''Bearer '' @ template P userId)]"

definition generateReferralLink_catch :: "app \<Rightarrow> app" where
  "generateReferralLink_catch s =
     setLoading False (setError (JStr ''Failed to generate referral link'') s)"

text \<open>
  \<^verbatim>\<open>if (!user) return;\<close> comes before \<^verbatim>\<open>setLoading(true)\<close> and outside the \<^verbatim>\<open>try\<close> block.
  The header, and with it \<^verbatim>\<open>user.id\<close>, is evaluated inside the block.
\<close>

definition generateReferralLink_begin :: "platform \<Rightarrow> app \<Rightarrow> phase" where
  "generateReferralLink_begin P s =
     (if \<not> truthy (user s) then Done s
      else (let s1 = setLoading True s
            in case member (user s) ''id'' of
                 Inl err \<Rightarrow> Done (generateReferralLink_catch s1)
               | Inr userId \<Rightarrow> Await (send (code_request P userId) s1)))"

text \<open>
  After the await the handler still holds the \<^verbatim>\<open>user\<close> of the render in which it was
  called: \<open>u\<close>.
\<close>

definition generateReferralLink_settle :: "platform \<Rightarrow> jsval \<Rightarrow> outcome \<Rightarrow> app \<Rightarrow> phase" where
  "generateReferralLink_settle P u r s =
     (case r of
        Inl err \<Rightarrow> Done (generateReferralLink_catch s)
      | Inr data \<Rightarrow>
          (case member data ''success'' of
             Inl err \<Rightarrow> Done (generateReferralLink_catch s)
           | Inr ok \<Rightarrow>
               if truthy ok then
                 (case member u ''id'' of
                    Inl err \<Rightarrow> Done (generateReferralLink_catch s)
                  | Inr userId \<Rightarrow> Await (fetchReferralData_begin P userId s))
               else Done (setLoading False s)))"

definition generateReferralLink_finish :: "outcome \<Rightarrow> app \<Rightarrow> app" where
  "generateReferralLink_finish r s = setLoading False (fetchReferralData_settle r s)"

definition generateReferralLink :: "platform \<Rightarrow> outcome \<Rightarrow> outcome \<Rightarrow> app \<Rightarrow> app" where
  "generateReferralLink P r1 r2 s =
     (case generateReferralLink_begin P s of
        Done s' \<Rightarrow> s'
      | Await s' \<Rightarrow>
          (case generateReferralLink_settle P (user s) r1 s' of
             Done s'' \<Rightarrow> s''
           | Await s'' \<Rightarrow> generateReferralLink_finish r2 s''))"

section \<open>Logout\<close>

definition handleLogout :: "app \<Rightarrow> app" where
  "handleLogout s =
     (let s1 = setUser JNull s;
          s2 = setReferralData JNull s1;
          s3 = setShowLogin True s2;
          s4 = setShowRegister False s3;
          s5 = setFormData \<lparr> email = [], fullName = [] \<rparr> s4
      in removeItem adminUser s5)"

text \<open>The second copy.\<close>

definition handleLogout' :: "app \<Rightarrow> app" where
  "handleLogout' s =
     (let s1 = setUser JNull s;
          s2 = setReferralData JNull s1;
          s3 = setFormData \<lparr> email = [], fullName = [] \<rparr> s2
      in removeItem adminUser s3)"

section \<open>What is rendered\<close>

text \<open>
  The first copy shows the form when \<^verbatim>\<open>showLogin || showRegister\<close>, the second when
  \<^verbatim>\<open>!user\<close>; otherwise the dashboard. The submit button of the form and the generate
  button of the dashboard both have \<^verbatim>\<open>disabled={loading}\<close>. The error slot of the form is
  \<^verbatim>\<open>{error && (<div>{error}</div>)}\<close>.
\<close>

definition shows_form :: "app \<Rightarrow> bool" where
  "shows_form s = (showLogin s \<or> showRegister s)"

definition shows_form' :: "app \<Rightarrow> bool" where
  "shows_form' s = (\<not> truthy (user s))"



definition error_slot :: "app \<Rightarrow> jsval option" where
  "error_slot s = (if truthy (error s) then Some (error s) else None)"

section \<open>The component as a transition system\<close>


datatype handler = Login | Register | Submit

datatype pending =
    Background
  | Credentials handler
  | CredentialsFetch handler
  | Generate jsval
  | GenerateFetch


record sys =
  page :: app
  inflight :: "pending list"







definition generate :: "platform \<Rightarrow> sys \<Rightarrow> sys" where
  "generate P \<sigma> =
     (case generateReferralLink_begin P (page \<sigma>) of
        Done s' \<Rightarrow> \<lparr> page = s', inflight = inflight \<sigma> \<rparr>
      | Await s' \<Rightarrow> \<lparr> page = s', inflight = inflight \<sigma> @ [Generate (user (page \<sigma>))] \<rparr>)"








section \<open>Requests sent by a handler\<close>

text \<open>
  The requests sent between the state \<open>s\<close> and the later state \<open>s'\<close>; the two kinds of
  request that carry the \<^verbatim>\<open>Authorization\<close> header; and the value of that header.
\<close>

definition issued :: "app \<Rightarrow> app \<Rightarrow> request list" where
  "issued s s' = drop (length (requests s)) (requests s')"

definition referral_request :: "request \<Rightarrow> bool" where
  "referral_request r =
     (case r of
        GET url headers \<Rightarrow>
          url = API_BASE_URL @ ''/referral/admin/summary''
          \<or> url = API_BASE_URL @ ''/referral/admin/code''
      | POST url body \<Rightarrow> False)"

definition authorization :: "request \<Rightarrow> string option" where
  "authorization r =
     (case r of GET url headers \<Rightarrow> map_of headers ''Authorization'' | POST url body \<Rightarrow> None)"

section \<open>A platform for worked examples\<close>

text \<open>
  A fragment of the runtime, enough to evaluate the handlers on concrete inputs. It agrees
  with \<^verbatim>\<open>JSON.parse\<close>, \<^verbatim>\<open>JSON.stringify\<close> and string coercion on the texts and values the
  examples hand to it: the user \<open>u1\<close> and its text, \<^verbatim>\<open>null\<close>, \<^verbatim>\<open>undefined\<close>, and two texts
  that are not JSON, the empty one and \<^verbatim>\<open>{oops\<close>.
\<close>

definition u1 :: jsval where
  "u1 = JObj [(''id'', JStr ''u1''), (''email'', JStr ''a@b.c''), (''fullName'', JStr ''Ann''),
              (''isVerified'', JBool True), (''role'', JStr ''admin'')]"

definition u1_json :: string where
  \<open>u1_json = ''{"id":"u1","email":"a@b.c","fullName":"Ann","isVerified":true,"role":"admin"}''\<close>

definition browser :: platform where
  "browser = \<lparr>
     JSON_parse = (\<lambda>t. if t = u1_json then Some u1 else if t = ''null'' then Some JNull else None),
     JSON_stringify = (\<lambda>v. if v = u1 then u1_json else if v = JNull then ''null'' else ''undefined''),
     ToString = (\<lambda>v. if v = JNull then ''null'' else ''undefined''),
     storage_accepts = (\<lambda>store k v. True) \<rparr>"

text \<open>The same browser with its store full: every \<^verbatim>\<open>setItem\<close> throws.\<close>

definition full_browser :: platform where
  "full_browser = browser\<lparr>storage_accepts := (\<lambda>store k v. False)\<rparr>"

definition login_ok :: jsval where
  "login_ok = JObj [(''success'', JBool True), (''user'', u1)]"

definition summary_ok :: jsval where
  "summary_ok = JObj [(''success'', JBool True),
     (''data'', JObj [(''referralCode'', JStr ''R1''), (''referralLinks'', JArr []),
                      (''totalReferredCount'', JNum 0), (''totalEarnings'', JNum 0),
                      (''pendingEarnings'', JNum 0)])]"

definition rejected_with :: "jsval \<Rightarrow> thrown" where
  "rejected_with m =
     AxiosError (JObj [(''status'', JNum 400), (''data'', JObj [(''message'', m)])])"

definition network_error :: thrown where
  "network_error = AxiosError JUndefined"

definition signed_in :: app where
  "signed_in = (initial (Map.empty(adminUser \<mapsto> u1_json)))\<lparr>user := u1, showLogin := False\<rparr>"

section \<open>Basic facts\<close>

lemmas setters = setUser_def setReferralData_def setLoading_def setError_def setShowLogin_def
  setShowRegister_def setFormData_def setItem_def removeItem_def send_def

lemma truthy_get_not_nullish: "truthy (get v k) \<Longrightarrow> \<not> nullish v"
  by (auto simp: nullish_def)

lemma member_present: "\<not> nullish v \<Longrightarrow> member v k = Inr (get v k)"
  by (simp add: member_def)

lemma fetchReferralData_settle_frame:
  "user (fetchReferralData_settle r s) = user s"
  "error (fetchReferralData_settle r s) = error s"
  "loading (fetchReferralData_settle r s) = loading s"
  "showLogin (fetchReferralData_settle r s) = showLogin s"
  "showRegister (fetchReferralData_settle r s) = showRegister s"
  "formData (fetchReferralData_settle r s) = formData s"
  "localStorage (fetchReferralData_settle r s) = localStorage s"
  "requests (fetchReferralData_settle r s) = requests s"
  by (simp_all add: fetchReferralData_settle_def console_error_def setters
        split: sum.splits)

section \<open>A successful submission\<close>

lemma handleLogin_settle_success:
  assumes "truthy (get data ''success'')" and "\<not> nullish (get data ''user'')"
    and "storage_accepts P (localStorage t) adminUser (JSON_stringify P (get data ''user''))"
  shows "handleLogin_settle P (Inr data) t =
     Await (fetchReferralData_begin P (get (get data ''user'') ''id'')
       (t\<lparr>user := get data ''user'',
          localStorage :=
            (localStorage t)(adminUser \<mapsto> JSON_stringify P (get data ''user'')),
          showLogin := False, showRegister := False\<rparr>))"
  using assms truthy_get_not_nullish [OF assms(1)]
  by (simp add: handleLogin_settle_def member_present setters Let_def)

lemma handleRegister_settle_success:
  assumes "truthy (get data ''success'')" and "\<not> nullish (get data ''user'')"
    and "storage_accepts P (localStorage t) adminUser (JSON_stringify P (get data ''user''))"
  shows "handleRegister_settle P (Inr data) t =
     Await (fetchReferralData_begin P (get (get data ''user'') ''id'')
       (t\<lparr>user := get data ''user'',
          localStorage :=
            (localStorage t)(adminUser \<mapsto> JSON_stringify P (get data ''user'')),
          showLogin := False, showRegister := False\<rparr>))"
  using assms truthy_get_not_nullish [OF assms(1)]
  by (simp add: handleRegister_settle_def member_present setters Let_def)

lemma handleSubmit_settle_success:
  assumes "truthy (get data ''success'')" and "\<not> nullish (get data ''user'')"
    and "storage_accepts P (localStorage t) adminUser (JSON_stringify P (get data ''user''))"
  shows "handleSubmit_settle P (Inr data) t =
     Await (fetchReferralData_begin P (get (get data ''user'') ''id'')
       (t\<lparr>user := get data ''user'',
          localStorage :=
            (localStorage t)(adminUser \<mapsto> JSON_stringify P (get data ''user''))\<rparr>))"
  using assms truthy_get_not_nullish [OF assms(1)]
  by (simp add: handleSubmit_settle_def member_present setters Let_def)

text \<open>The store does not take the entry: \<^verbatim>\<open>setItem\<close> throws, after \<^verbatim>\<open>setUser\<close>.\<close>

lemma settle_store_full:
  assumes "truthy (get data ''success'')"
    and "\<not> storage_accepts P (localStorage t) adminUser (JSON_stringify P (get data ''user''))"
  shows "handleLogin_settle P (Inr data) t
           = Done (t\<lparr>user := get data ''user'', loading := False, error := JStr ''Login failed''\<rparr>)"
    and "handleRegister_settle P (Inr data) t
           = Done (t\<lparr>user := get data ''user'', loading := False,
                     error := JStr ''Registration failed''\<rparr>)"
    and "handleSubmit_settle P (Inr data) t
           = Done (t\<lparr>user := get data ''user'', loading := False,
                     error := JStr ''Failed to access dashboard''\<rparr>)"
  using assms truthy_get_not_nullish [OF assms(1)]
  by (simp_all add: handleLogin_settle_def handleRegister_settle_def handleSubmit_settle_def
        handleLogin_catch_def handleRegister_catch_def handleSubmit_catch_def member_present
        setters Let_def js_or_def err_message_def opt_member_def nullish_def)

text \<open>
  C1, as amended. The response of a login, registration or submission request has a
  truthy \<^verbatim>\<open>success\<close> (\<^verbatim>\<open>true\<close>, for a boolean) and carries a user \<open>u\<close>.
  If the store takes the entry, the handler reaches its call of \<^verbatim>\<open>fetchReferralData\<close>,
  and at that point \<open>u\<close> is the \<^verbatim>\<open>user\<close> of the view state, local storage holds
  \<^verbatim>\<open>JSON.stringify(u)\<close> under \<^verbatim>\<open>adminUser\<close> and is otherwise as before, and the requests
  sent are the credentials request followed by one summary request for \<^verbatim>\<open>u.id\<close>; when the
  handler has returned the same three facts hold, whatever the summary request comes to.
  If the store does not take the entry, \<^verbatim>\<open>setItem\<close> throws into the \<^verbatim>\<open>catch\<close> block: \<open>u\<close>
  is the \<^verbatim>\<open>user\<close> of the view state, local storage is as before, the credentials request
  is the only request sent, and \<^verbatim>\<open>error\<close> is the handler's fallback string.
\<close>

theorem C1_success_stores_user_then_fetches_once:
  assumes "truthy (get data ''success'')" and "get data ''user'' = u" and "\<not> nullish u"
  shows
    "(storage_accepts P (localStorage s) adminUser (JSON_stringify P u) \<longrightarrow>
       (\<exists>t. handleLogin_settle P (Inr data) (handleLogin_begin s) = Await t
          \<and> user t = u
          \<and> localStorage t = (localStorage s)(adminUser \<mapsto> JSON_stringify P u)
          \<and> requests t
              = requests s @ [login_request (formData s), summary_request P (get u ''id'')])
       \<and> user (handleLogin P (Inr data) r2 s) = u
       \<and> localStorage (handleLogin P (Inr data) r2 s)
           = (localStorage s)(adminUser \<mapsto> JSON_stringify P u)
       \<and> requests (handleLogin P (Inr data) r2 s)
           = requests s @ [login_request (formData s), summary_request P (get u ''id'')]
       \<and> (\<exists>t. handleRegister_settle P (Inr data) (handleRegister_begin s) = Await t
          \<and> user t = u
          \<and> localStorage t = (localStorage s)(adminUser \<mapsto> JSON_stringify P u)
          \<and> requests t
              = requests s @ [register_request (formData s), summary_request P (get u ''id'')])
       \<and> user (handleRegister P (Inr data) r2 s) = u
       \<and> localStorage (handleRegister P (Inr data) r2 s)
           = (localStorage s)(adminUser \<mapsto> JSON_stringify P u)
       \<and> requests (handleRegister P (Inr data) r2 s)
           = requests s @ [register_request (formData s), summary_request P (get u ''id'')]
       \<and> (\<exists>t. handleSubmit_settle P (Inr data) (handleSubmit_begin s) = Await t
          \<and> user t = u
          \<and> localStorage t = (localStorage s)(adminUser \<mapsto> JSON_stringify P u)
          \<and> requests t
              = requests s @ [register_request (formData s), summary_request P (get u ''id'')])
       \<and> user (handleSubmit P (Inr data) r2 s) = u
       \<and> localStorage (handleSubmit P (Inr data) r2 s)
           = (localStorage s)(adminUser \<mapsto> JSON_stringify P u)
       \<and> requests (handleSubmit P (Inr data) r2 s)
           = requests s @ [register_request (formData s), summary_request P (get u ''id'')])
     \<and> (\<not> storage_accepts P (localStorage s) adminUser (JSON_stringify P u) \<longrightarrow>
       handleLogin P (Inr data) r2 s
         = s\<lparr>user := u, loading := False, error := JStr ''Login failed'',
             requests := requests s @ [login_request (formData s)]\<rparr>
       \<and> handleRegister P (Inr data) r2 s
         = s\<lparr>user := u, loading := False, error := JStr ''Registration failed'',
             requests := requests s @ [register_request (formData s)]\<rparr>
       \<and> handleSubmit P (Inr data) r2 s
         = s\<lparr>user := u, loading := False, error := JStr ''Failed to access dashboard'',
             requests := requests s @ [register_request (formData s)]\<rparr>)"
proof (cases "storage_accepts P (localStorage s) adminUser (JSON_stringify P u)")
  case True
  have usr: "\<not> nullish (get data ''user'')" using assms by simp
  have acc: "storage_accepts P (localStorage s) adminUser (JSON_stringify P (get data ''user''))"
    using True assms(2) by simp
  show ?thesis
    using True assms(1) usr acc
    by (simp add: handleLogin_settle_success handleRegister_settle_success
          handleSubmit_settle_success handleLogin_def handleRegister_def handleSubmit_def
          handleLogin_finish_def handleRegister_finish_def handleSubmit_finish_def
          fetchReferralData_settle_frame handleLogin_begin_def handleRegister_begin_def
          handleSubmit_begin_def fetchReferralData_begin_def setters Let_def assms(2))
next
  case False
  have full: "\<not> storage_accepts P (localStorage s) adminUser
                 (JSON_stringify P (get data ''user''))"
    using False assms(2) by simp
  show ?thesis
    using False assms(1) full
    by (simp add: settle_store_full handleLogin_def handleRegister_def handleSubmit_def
          handleLogin_begin_def handleRegister_begin_def handleSubmit_begin_def setters
          Let_def assms(2))
qed

theorem C1_witness:
  "truthy (get login_ok ''success'') \<and> get login_ok ''user'' = u1 \<and> \<not> nullish u1
   \<and> storage_accepts browser (localStorage (initial Map.empty)) adminUser
        (JSON_stringify browser u1)
   \<and> user (handleLogin browser (Inr login_ok) (Inr summary_ok) (initial Map.empty)) = u1
   \<and> localStorage (handleLogin browser (Inr login_ok) (Inr summary_ok) (initial Map.empty))
        adminUser = Some u1_json
   \<and> requests (handleLogin browser (Inr login_ok) (Inr summary_ok) (initial Map.empty))
        = [login_request (formData (initial Map.empty)),
           GET (API_BASE_URL @ ''/referral/admin/summary'') [(''Authorization'', ''Bearer u1'')]]
   \<and> \<not> storage_accepts full_browser (localStorage (initial Map.empty)) adminUser
        (JSON_stringify full_browser u1)
   \<and> error (handleSubmit full_browser (Inr login_ok) (Inr summary_ok) (initial Map.empty))
        = JStr ''Failed to access dashboard''"
proof -
  have a: "truthy (get login_ok ''success'')" by (simp add: login_ok_def)
  have b: "get login_ok ''user'' = u1" by (simp add: login_ok_def)
  have c: "\<not> nullish u1" by (simp add: u1_def nullish_def)
  have d: "JSON_stringify browser u1 = u1_json" by (simp add: browser_def)
  have e: "summary_request browser (get u1 ''id'')
      = GET (API_BASE_URL @ ''/referral/admin/summary'') [(''Authorization'', ''Bearer u1'')]"
    by (simp add: summary_request_def template_def u1_def)
  have f: "storage_accepts browser st k v" for st k v by (simp add: browser_def)
  have g: "\<not> storage_accepts full_browser st k v" for st k v by (simp add: full_browser_def)
  show ?thesis
    using C1_success_stores_user_then_fetches_once
      [OF a b c, of browser "initial Map.empty" "Inr summary_ok"]
      C1_success_stores_user_then_fetches_once
      [OF a b c, of full_browser "initial Map.empty" "Inr summary_ok"]
    by (simp add: a b c d e f g initial_def)
qed

text \<open>
  C1 as stated fails when the store is full: the response has \<^verbatim>\<open>success\<close> \<^verbatim>\<open>true\<close> and
  returns the user, and the handler ends with nothing under \<^verbatim>\<open>adminUser\<close>, no summary
  request sent and its fallback string in \<^verbatim>\<open>error\<close>.
\<close>

theorem C1_counterexample:
  "get login_ok ''success'' = JBool True
   \<and> get login_ok ''user'' = u1
   \<and> localStorage (handleLogin full_browser (Inr login_ok) (Inr summary_ok) (initial Map.empty))
        adminUser = None
   \<and> requests (handleLogin full_browser (Inr login_ok) (Inr summary_ok) (initial Map.empty))
        = [login_request (formData (initial Map.empty))]
   \<and> error (handleLogin full_browser (Inr login_ok) (Inr summary_ok) (initial Map.empty))
        = JStr ''Login failed''"
proof -
  have a: "truthy (get login_ok ''success'')" by (simp add: login_ok_def)
  have g: "\<not> storage_accepts full_browser st k v" for st k v by (simp add: full_browser_def)
  have h: "handleLogin full_browser (Inr login_ok) r2 s
      = s\<lparr>user := get login_ok ''user'', loading := False, error := JStr ''Login failed'',
          requests := requests s @ [login_request (formData s)]\<rparr>" for r2 s
    using a
    by (simp add: handleLogin_def settle_store_full g handleLogin_begin_def setters Let_def)
  show ?thesis by (simp add: h) (simp add: login_ok_def initial_def)
qed

section \<open>A failed submission\<close>

lemma handleLogin_rejected:
  "handleLogin P (Inl err) r2 s =
     s\<lparr>loading := False, error := js_or (err_message err) (JStr ''Login failed''),
       requests := requests s @ [login_request (formData s)]\<rparr>"
  by (simp add: handleLogin_def handleLogin_settle_def handleLogin_begin_def
        handleLogin_catch_def setters Let_def)

lemma handleRegister_rejected:
  "handleRegister P (Inl err) r2 s =
     s\<lparr>loading := False, error := js_or (err_message err) (JStr ''Registration failed''),
       requests := requests s @ [register_request (formData s)]\<rparr>"
  by (simp add: handleRegister_def handleRegister_settle_def handleRegister_begin_def
        handleRegister_catch_def setters Let_def)

lemma handleSubmit_rejected:
  "handleSubmit P (Inl err) r2 s =
     s\<lparr>loading := False, error := js_or (err_message err) (JStr ''Failed to access dashboard''),
       requests := requests s @ [register_request (formData s)]\<rparr>"
  by (simp add: handleSubmit_def handleSubmit_settle_def handleSubmit_begin_def
        handleSubmit_catch_def setters Let_def)

text \<open>
  C2, as amended. A login, registration or submission request is rejected with \<open>err\<close>.
  Then \<^verbatim>\<open>user\<close>, \<^verbatim>\<open>referralData\<close> and local storage are as before, the credentials
  request is the only request sent, and \<^verbatim>\<open>error\<close> is \<^verbatim>\<open>err.response?.data?.message\<close> when
  that is truthy (for a string: not empty) and the handler's fallback string otherwise.
\<close>

theorem C2_failed_submission_keeps_session:
  "user (handleLogin P (Inl err) r2 s) = user s
   \<and> localStorage (handleLogin P (Inl err) r2 s) = localStorage s
   \<and> referralData (handleLogin P (Inl err) r2 s) = referralData s
   \<and> requests (handleLogin P (Inl err) r2 s) = requests s @ [login_request (formData s)]
   \<and> error (handleLogin P (Inl err) r2 s)
       = (if truthy (err_message err) then err_message err else JStr ''Login failed'')
   \<and> user (handleRegister P (Inl err) r2 s) = user s
   \<and> localStorage (handleRegister P (Inl err) r2 s) = localStorage s
   \<and> referralData (handleRegister P (Inl err) r2 s) = referralData s
   \<and> requests (handleRegister P (Inl err) r2 s) = requests s @ [register_request (formData s)]
   \<and> error (handleRegister P (Inl err) r2 s)
       = (if truthy (err_message err) then err_message err else JStr ''Registration failed'')
   \<and> user (handleSubmit P (Inl err) r2 s) = user s
   \<and> localStorage (handleSubmit P (Inl err) r2 s) = localStorage s
   \<and> referralData (handleSubmit P (Inl err) r2 s) = referralData s
   \<and> requests (handleSubmit P (Inl err) r2 s) = requests s @ [register_request (formData s)]
   \<and> error (handleSubmit P (Inl err) r2 s)
       = (if truthy (err_message err) then err_message err
          else JStr ''Failed to access dashboard'')"
  by (simp add: handleLogin_rejected handleRegister_rejected handleSubmit_rejected js_or_def)

lemma err_message_rejected_with [simp]: "err_message (rejected_with m) = m"
  by (simp add: err_message_def rejected_with_def opt_member_def nullish_def)

lemma err_message_network_error [simp]: "err_message network_error = JUndefined"
  by (simp add: err_message_def network_error_def opt_member_def nullish_def)

text \<open>A rejection with a message, and one with no response at all.\<close>

theorem C2_witness:
  "error (handleLogin browser (Inl (rejected_with (JStr ''No such admin''))) (Inl network_error)
       (initial Map.empty)) = JStr ''No such admin''
   \<and> error (handleLogin browser (Inl network_error) (Inl network_error) (initial Map.empty))
       = JStr ''Login failed''
   \<and> user (handleLogin browser (Inl network_error) (Inl network_error) (initial Map.empty)) = JNull
   \<and> localStorage (handleLogin browser (Inl network_error) (Inl network_error) (initial Map.empty))
       adminUser = None"
  using C2_failed_submission_keeps_session
      [of browser "rejected_with (JStr ''No such admin'')" "Inl network_error" "initial Map.empty"]
    C2_failed_submission_keeps_session
      [of browser network_error "Inl network_error" "initial Map.empty"]
  by (simp add: initial_def)

text \<open>
  C2 as stated fails where the server's message is present and empty: the slot then
  shows the fallback string, not the message.
\<close>

theorem C2_counterexample:
  "err_message (rejected_with (JStr [])) = JStr []
   \<and> error (handleLogin browser (Inl (rejected_with (JStr []))) (Inl network_error)
        (initial Map.empty)) = JStr ''Login failed''
   \<and> error (handleRegister browser (Inl (rejected_with (JStr []))) (Inl network_error)
        (initial Map.empty)) = JStr ''Registration failed''
   \<and> error (handleSubmit browser (Inl (rejected_with (JStr []))) (Inl network_error)
        (initial Map.empty)) = JStr ''Failed to access dashboard''"
  by (simp add: handleLogin_rejected handleRegister_rejected handleSubmit_rejected js_or_def)

section \<open>A persisted session that does not parse\<close>

lemma useEffect_mount_unparsable:
  assumes "localStorage s adminUser = Some blob" and "JSON_parse P blob = None"
  shows "useEffect_mount P s = Done (if blob = [] then s else removeItem adminUser s)"
    and "useEffect_mount' P s = Done (if blob = [] then s else removeItem adminUser s)"
  using assms by (simp_all add: useEffect_mount_def useEffect_mount'_def)

text \<open>
  C3, as amended. On the first render local storage holds \<open>blob\<close> under \<^verbatim>\<open>adminUser\<close> and
  \<^verbatim>\<open>JSON.parse\<close> throws on it. Then the mount effect, of either copy, ends with no request
  in flight, \<^verbatim>\<open>user\<close> still \<^verbatim>\<open>null\<close>, nothing in the error slot and the form shown. The
  entry is removed, the other entries kept, unless \<open>blob\<close> is the empty string: that one
  \<^verbatim>\<open>if (savedUser)\<close> skips, and local storage is left as it is.
\<close>

theorem C3_malformed_session_discarded:
  assumes "ls adminUser = Some blob" and "JSON_parse P blob = None"
  shows
    "(\<exists>t. useEffect_mount P (initial ls) = Done t
        \<and> localStorage t = (if blob = [] then ls else ls(adminUser := None))
        \<and> user t = JNull \<and> error_slot t = None \<and> shows_form t \<and> requests t = [])
     \<and> (\<exists>t. useEffect_mount' P (initial ls) = Done t
        \<and> localStorage t = (if blob = [] then ls else ls(adminUser := None))
        \<and> user t = JNull \<and> error_slot t = None \<and> shows_form' t \<and> requests t = [])"
proof -
  have "localStorage (initial ls) adminUser = Some blob"
    using assms(1) by (simp add: initial_def)
  from useEffect_mount_unparsable [OF this assms(2)] show ?thesis
    by (simp add: initial_def removeItem_def error_slot_def shows_form_def shows_form'_def)
qed

theorem C3_witness:
  "(Map.empty(adminUser \<mapsto> ''{oops'')) adminUser = Some ''{oops''
   \<and> JSON_parse browser ''{oops'' = None
   \<and> localStorage (state_of (useEffect_mount browser (initial (Map.empty(adminUser \<mapsto> ''{oops'')))))
        adminUser = None
   \<and> user (state_of (useEffect_mount browser (initial (Map.empty(adminUser \<mapsto> ''{oops''))))) = JNull
   \<and> localStorage (state_of (useEffect_mount' browser (initial (Map.empty(adminUser \<mapsto> ''{oops'')))))
        adminUser = None"
proof -
  have a: "(Map.empty(adminUser \<mapsto> ''{oops'')) adminUser = Some ''{oops''" by simp
  have b: "JSON_parse browser ''{oops'' = None" by (simp add: browser_def u1_json_def)
  show ?thesis
    using C3_malformed_session_discarded
      [of "Map.empty(adminUser \<mapsto> ''{oops'')" "''{oops''" browser, OF a b]
    by (auto simp: b)
qed

text \<open>
  C3 as stated fails for the entry that is present and empty: \<^verbatim>\<open>JSON.parse\<close> throws on
  the empty string, which the mount effect never hands to it, and the entry is still
  there afterwards.
\<close>

theorem C3_counterexample:
  "JSON_parse browser [] = None
   \<and> localStorage (state_of (useEffect_mount browser (initial (Map.empty(adminUser \<mapsto> [])))))
        adminUser = Some []
   \<and> localStorage (state_of (useEffect_mount' browser (initial (Map.empty(adminUser \<mapsto> [])))))
        adminUser = Some []"
  by (simp add: browser_def u1_json_def useEffect_mount_def useEffect_mount'_def initial_def)

section \<open>An unsuccessful response\<close>

lemma settle_unsuccessful:
  assumes "member data ''success'' = Inr ok" and "\<not> truthy ok"
  shows "handleLogin_settle P (Inr data) t = Done (t\<lparr>loading := False\<rparr>)"
    and "handleRegister_settle P (Inr data) t = Done (t\<lparr>loading := False\<rparr>)"
    and "handleSubmit_settle P (Inr data) t = Done (t\<lparr>loading := False\<rparr>)"
  using assms
  by (simp_all add: handleLogin_settle_def handleRegister_settle_def handleSubmit_settle_def
        setLoading_def)

text \<open>
  C10. The request of a submission handler is answered, \<^verbatim>\<open>response.data.success\<close> can be
  read and is falsy (\<^verbatim>\<open>false\<close>, for a boolean). Then the part of the handler that runs on
  the response changes the loading flag and nothing else, whatever the state \<open>t\<close> it finds;
  and the handler as a whole leaves the state it was called in but for the request it
  sent, the loading flag, which is off, and \<^verbatim>\<open>error\<close>, which it emptied on entry: no user
  in the view state or in local storage, no summary request, nothing in the error slot.
\<close>

theorem C10_unsuccessful_response_only_clears_loading:
  assumes "member data ''success'' = Inr ok" and "\<not> truthy ok"
  shows
    "handleLogin_settle P (Inr data) t = Done (t\<lparr>loading := False\<rparr>)
     \<and> handleLogin P (Inr data) r2 s
         = s\<lparr>loading := False, error := JStr [],
             requests := requests s @ [login_request (formData s)]\<rparr>
     \<and> error_slot (handleLogin P (Inr data) r2 s) = None
     \<and> handleRegister_settle P (Inr data) t = Done (t\<lparr>loading := False\<rparr>)
     \<and> handleRegister P (Inr data) r2 s
         = s\<lparr>loading := False, error := JStr [],
             requests := requests s @ [register_request (formData s)]\<rparr>
     \<and> error_slot (handleRegister P (Inr data) r2 s) = None
     \<and> handleSubmit_settle P (Inr data) t = Done (t\<lparr>loading := False\<rparr>)
     \<and> handleSubmit P (Inr data) r2 s
         = s\<lparr>loading := False, error := JStr [],
             requests := requests s @ [register_request (formData s)]\<rparr>
     \<and> error_slot (handleSubmit P (Inr data) r2 s) = None"
  by (simp add: settle_unsuccessful [OF assms] handleLogin_def handleRegister_def
        handleSubmit_def handleLogin_begin_def handleRegister_begin_def handleSubmit_begin_def
        setters Let_def error_slot_def)

theorem C10_witness:
  "member (JObj [(''success'', JBool False)]) ''success'' = Inr (JBool False)
   \<and> \<not> truthy (JBool False)
   \<and> handleLogin browser (Inr (JObj [(''success'', JBool False)])) (Inl network_error) (initial Map.empty)
       = (initial Map.empty)\<lparr>requests := [login_request (formData (initial Map.empty))]\<rparr>"
proof -
  have a: "member (JObj [(''success'', JBool False)]) ''success'' = Inr (JBool False)"
    by (simp add: member_def nullish_def)
  have b: "\<not> truthy (JBool False)" by simp
  show ?thesis
    using C10_unsuccessful_response_only_clears_loading [OF a b, of browser _ "Inl network_error" "initial Map.empty"]
    by (simp add: a initial_def)
qed

section \<open>The summary request\<close>

lemma referralData_settle:
  "referralData (fetchReferralData_settle r s)
     = (case r of
          Inl err \<Rightarrow> referralData s
        | Inr data \<Rightarrow> if truthy (get data ''success'') then get data ''data'' else referralData s)"
  by (auto simp: fetchReferralData_settle_def console_error_def member_def setters nullish_def
        split: sum.splits)

text \<open>
  C9. When the summary request is rejected, \<^verbatim>\<open>fetchReferralData\<close> writes one line with
  \<^verbatim>\<open>console.error\<close> and changes nothing else. Whatever the outcome \<open>r\<close>, it leaves \<^verbatim>\<open>user\<close>,
  \<^verbatim>\<open>error\<close>, the loading flag, the form and local storage alone; and \<^verbatim>\<open>referralData\<close> is
  the \<^verbatim>\<open>data\<close> field of the response when the response has a truthy \<^verbatim>\<open>success\<close>, and is
  what it was in every other case.
\<close>

theorem C9_summary_failure_is_silent:
  "fetchReferralData_settle (Inl err) s
     = s\<lparr>console := console s @ [(''Failed to fetch referral data:'', err)]\<rparr>
   \<and> user (fetchReferralData_settle r s) = user s
   \<and> error (fetchReferralData_settle r s) = error s
   \<and> loading (fetchReferralData_settle r s) = loading s
   \<and> showLogin (fetchReferralData_settle r s) = showLogin s
   \<and> showRegister (fetchReferralData_settle r s) = showRegister s
   \<and> formData (fetchReferralData_settle r s) = formData s
   \<and> localStorage (fetchReferralData_settle r s) = localStorage s
   \<and> referralData (fetchReferralData_settle r s)
       = (case r of
            Inl err \<Rightarrow> referralData s
          | Inr data \<Rightarrow> if truthy (get data ''success'') then get data ''data'' else referralData s)"
  by (simp add: fetchReferralData_settle_frame referralData_settle)
    (simp add: fetchReferralData_settle_def console_error_def)

theorem C9_witness:
  "referralData (fetchReferralData_settle (Inl network_error) (signed_in\<lparr>referralData := get summary_ok ''data''\<rparr>))
     = get summary_ok ''data''
   \<and> error (fetchReferralData_settle (Inl network_error) signed_in) = JStr []
   \<and> user (fetchReferralData_settle (Inl network_error) signed_in) = u1
   \<and> referralData (fetchReferralData_settle (Inr summary_ok) signed_in) = get summary_ok ''data''
   \<and> referralData (fetchReferralData_settle (Inr (JObj [(''success'', JBool False)])) signed_in) = JNull"
  using C9_summary_failure_is_silent [of network_error "signed_in\<lparr>referralData := get summary_ok ''data''\<rparr>" "Inl network_error"]
    C9_summary_failure_is_silent [of network_error signed_in "Inl network_error"]
    C9_summary_failure_is_silent [of network_error signed_in "Inr summary_ok"]
    C9_summary_failure_is_silent [of network_error signed_in "Inr (JObj [(''success'', JBool False)])"]
  by (simp add: signed_in_def initial_def summary_ok_def)

section \<open>Logout\<close>

text \<open>
  C4. In every state, \<^verbatim>\<open>handleLogout\<close> of either copy sets \<^verbatim>\<open>user\<close> and \<^verbatim>\<open>referralData\<close> to
  \<^verbatim>\<open>null\<close>, empties the two form fields, leaves the form shown, and removes the
  \<^verbatim>\<open>adminUser\<close> entry from local storage, keeping the other entries. It is one
  synchronous function without a branch; the two equations say all it does (the loading
  flag and \<^verbatim>\<open>error\<close>, which no session owns, are not among the cells it writes).
\<close>

theorem C4_logout_clears_session:
  "user (handleLogout s) = JNull
   \<and> referralData (handleLogout s) = JNull
   \<and> formData (handleLogout s) = \<lparr> email = [], fullName = [] \<rparr>
   \<and> shows_form (handleLogout s)
   \<and> localStorage (handleLogout s) = (localStorage s)(adminUser := None)
   \<and> handleLogout s
       = s\<lparr>user := JNull, referralData := JNull, showLogin := True, showRegister := False,
           formData := \<lparr> email = [], fullName = [] \<rparr>,
           localStorage := (localStorage s)(adminUser := None)\<rparr>
   \<and> user (handleLogout' s) = JNull
   \<and> referralData (handleLogout' s) = JNull
   \<and> formData (handleLogout' s) = \<lparr> email = [], fullName = [] \<rparr>
   \<and> shows_form' (handleLogout' s)
   \<and> localStorage (handleLogout' s) = (localStorage s)(adminUser := None)
   \<and> handleLogout' s
       = s\<lparr>user := JNull, referralData := JNull,
           formData := \<lparr> email = [], fullName = [] \<rparr>,
           localStorage := (localStorage s)(adminUser := None)\<rparr>"
  by (simp add: handleLogout_def handleLogout'_def setters Let_def shows_form_def shows_form'_def)

theorem C4_witness:
  "user (handleLogout signed_in) = JNull
   \<and> localStorage (handleLogout signed_in) adminUser = None
   \<and> shows_form (handleLogout signed_in)
   \<and> user (handleLogout' signed_in) = JNull
   \<and> localStorage (handleLogout' signed_in) adminUser = None
   \<and> shows_form' (handleLogout' signed_in)"
  using C4_logout_clears_session [of signed_in]
  by (simp add: shows_form_def shows_form'_def)

section \<open>Code generation\<close>

lemma truthy_not_nullish: "truthy v \<Longrightarrow> \<not> nullish v"
  by (auto simp: nullish_def)

lemma generateReferralLink_begin_signed_in:
  "truthy (user s) \<Longrightarrow>
   generateReferralLink_begin P s
     = Await (send (code_request P (get (user s) ''id'')) (setLoading True s))"
  by (simp add: generateReferralLink_begin_def member_present truthy_not_nullish Let_def)

lemma generateReferralLink_rejected:
  "truthy (user s) \<Longrightarrow>
   generateReferralLink P (Inl err) r2 s
     = s\<lparr>loading := False, error := JStr ''Failed to generate referral link'',
         requests := requests s @ [code_request P (get (user s) ''id'')]\<rparr>"
  by (simp add: generateReferralLink_def generateReferralLink_begin_signed_in
        generateReferralLink_settle_def generateReferralLink_catch_def setters)





section \<open>The message of a caught failure\<close>

text \<open>
  C7, as amended. The \<^verbatim>\<open>catch\<close> block of a submission handler sets \<^verbatim>\<open>error\<close> to
  \<^verbatim>\<open>err.response?.data?.message\<close> when that is truthy and to the handler's own string
  otherwise, and reads nothing else of the caught value; the \<^verbatim>\<open>catch\<close> block of
  \<^verbatim>\<open>generateReferralLink\<close> sets it to a fixed string whatever was caught. A rejected
  request takes each handler through its \<^verbatim>\<open>catch\<close> block.
\<close>

theorem C7_failure_messages:
  "error (handleLogin_catch err t)
     = (if truthy (err_message err) then err_message err else JStr ''Login failed'')
   \<and> error (handleRegister_catch err t)
     = (if truthy (err_message err) then err_message err else JStr ''Registration failed'')
   \<and> error (handleSubmit_catch err t)
     = (if truthy (err_message err) then err_message err
        else JStr ''Failed to access dashboard'')
   \<and> error (generateReferralLink_catch t) = JStr ''Failed to generate referral link''
   \<and> handleLogin P (Inl err) r2 s = handleLogin_catch err (handleLogin_begin s)
   \<and> handleRegister P (Inl err) r2 s = handleRegister_catch err (handleRegister_begin s)
   \<and> handleSubmit P (Inl err) r2 s = handleSubmit_catch err (handleSubmit_begin s)
   \<and> (truthy (user s) \<longrightarrow>
        generateReferralLink P (Inl err) r2 s
          = generateReferralLink_catch (state_of (generateReferralLink_begin P s)))"
  by (simp add: handleLogin_catch_def handleRegister_catch_def handleSubmit_catch_def
        generateReferralLink_catch_def js_or_def setters handleLogin_def handleRegister_def
        handleSubmit_def handleLogin_settle_def handleRegister_settle_def handleSubmit_settle_def
        generateReferralLink_def generateReferralLink_begin_signed_in
        generateReferralLink_settle_def)

theorem C7_witness:
  "truthy (user signed_in)
   \<and> error (generateReferralLink browser (Inl network_error) (Inl network_error) signed_in)
       = JStr ''Failed to generate referral link''
   \<and> error (handleLogin browser (Inl (rejected_with (JStr ''No such admin''))) (Inl network_error)
        (initial Map.empty)) = JStr ''No such admin''"
proof -
  have a: "truthy (user signed_in)" by (simp add: signed_in_def u1_def)
  show ?thesis
    using C7_failure_messages [of network_error _ browser "Inl network_error" signed_in]
      C7_failure_messages [of "rejected_with (JStr ''No such admin'')" _ browser "Inl network_error" "initial Map.empty"]
    by (simp add: a)
qed

text \<open>
  C7 as stated fails for code generation: the server's message is never shown.
\<close>

theorem C7_counterexample:
  "err_message (rejected_with (JStr ''Too many codes'')) = JStr ''Too many codes''
   \<and> error (generateReferralLink browser (Inl (rejected_with (JStr ''Too many codes'')))
        (Inl network_error) signed_in) = JStr ''Failed to generate referral link''"
proof -
  have "truthy (user signed_in)" by (simp add: signed_in_def u1_def)
  then show ?thesis by (simp add: generateReferralLink_rejected)
qed

section \<open>The Authorization header\<close>

lemma issued_append [simp]: "requests s' = requests s @ rs \<Longrightarrow> issued s s' = rs"
  by (simp add: issued_def)

lemma issued_same [simp]: "requests s' = requests s \<Longrightarrow> issued s s' = []"
  by (simp add: issued_def)

lemma referral_request_simps [simp]:
  "\<not> referral_request (login_request f)"
  "\<not> referral_request (register_request f)"
  "referral_request (summary_request P v)"
  "referral_request (code_request P v)"
  by (simp_all add: referral_request_def login_request_def register_request_def
        summary_request_def code_request_def)

lemma authorization_simps [simp]:
  "authorization (summary_request P v) = Some (''Bearer '' @ template P v)"
  "authorization (code_request P v) = Some (''Bearer '' @ template P v)"
  by (simp_all add: authorization_def summary_request_def code_request_def)

lemma handleLogin_sent:
  "(requests (handleLogin P r1 r2 s) = requests s @ [login_request (formData s)])
   \<or> (requests (handleLogin P r1 r2 s)
        = requests s @ [login_request (formData s),
                        summary_request P (get (user (handleLogin P r1 r2 s)) ''id'')])"
  by (auto simp: handleLogin_def handleLogin_settle_def handleLogin_begin_def
        handleLogin_catch_def handleLogin_finish_def fetchReferralData_begin_def
        fetchReferralData_settle_frame member_def setters Let_def
        split: sum.splits)

lemma handleRegister_sent:
  "(requests (handleRegister P r1 r2 s) = requests s @ [register_request (formData s)])
   \<or> (requests (handleRegister P r1 r2 s)
        = requests s @ [register_request (formData s),
                        summary_request P (get (user (handleRegister P r1 r2 s)) ''id'')])"
  by (auto simp: handleRegister_def handleRegister_settle_def handleRegister_begin_def
        handleRegister_catch_def handleRegister_finish_def fetchReferralData_begin_def
        fetchReferralData_settle_frame member_def setters Let_def
        split: sum.splits)

lemma handleSubmit_sent:
  "(requests (handleSubmit P r1 r2 s) = requests s @ [register_request (formData s)])
   \<or> (requests (handleSubmit P r1 r2 s)
        = requests s @ [register_request (formData s),
                        summary_request P (get (user (handleSubmit P r1 r2 s)) ''id'')])"
  by (auto simp: handleSubmit_def handleSubmit_settle_def handleSubmit_begin_def
        handleSubmit_catch_def handleSubmit_finish_def fetchReferralData_begin_def
        fetchReferralData_settle_frame member_def setters Let_def
        split: sum.splits)

lemma generateReferralLink_user: "user (generateReferralLink P r1 r2 s) = user s"
  by (auto simp: generateReferralLink_def generateReferralLink_begin_def
        generateReferralLink_settle_def generateReferralLink_catch_def
        generateReferralLink_finish_def fetchReferralData_begin_def
        fetchReferralData_settle_frame member_def setters Let_def
        split: sum.splits)

lemma generateReferralLink_sent:
  "requests (generateReferralLink P r1 r2 s) = requests s
   \<or> requests (generateReferralLink P r1 r2 s)
        = requests s @ [code_request P (get (user s) ''id'')]
   \<or> requests (generateReferralLink P r1 r2 s)
        = requests s @ [code_request P (get (user s) ''id''),
                        summary_request P (get (user s) ''id'')]"
  by (auto simp: generateReferralLink_def generateReferralLink_begin_def
        generateReferralLink_settle_def generateReferralLink_catch_def
        generateReferralLink_finish_def fetchReferralData_begin_def
        fetchReferralData_settle_frame member_def setters Let_def
        split: sum.splits)

lemma useEffect_mount_sent:
  "requests (state_of (useEffect_mount P s)) = requests s
   \<or> requests (state_of (useEffect_mount P s))
        = requests s @ [summary_request P (get (user (state_of (useEffect_mount P s))) ''id'')]"
  by (auto simp: useEffect_mount_def fetchReferralData_begin_def member_def setters Let_def
        split: option.splits sum.splits)

lemma useEffect_mount'_sent:
  "requests (state_of (useEffect_mount' P s)) = requests s
   \<or> requests (state_of (useEffect_mount' P s))
        = requests s @ [summary_request P (get (user (state_of (useEffect_mount' P s))) ''id'')]"
  by (auto simp: useEffect_mount'_def fetchReferralData_begin_def member_def setters Let_def
        split: option.splits sum.splits)

text \<open>
  C6. A template literal splices a string in as it is. Of the requests a handler sends
  (the three submission handlers, \<^verbatim>\<open>generateReferralLink\<close>, and the mount effect of either
  copy), whatever the outcomes, every summary request and every code request has the
  \<^verbatim>\<open>Authorization\<close> header \<^verbatim>\<open>Bearer\<close>, a space, and the \<^verbatim>\<open>id\<close> of the user of the session:
  the user the handler has stored, or for \<^verbatim>\<open>generateReferralLink\<close> the user signed in.
\<close>

theorem C6_bearer_is_user_id:
  "template P (JStr i) = i
   \<and> (\<forall>r \<in> set (issued s (handleLogin P r1 r2 s)). referral_request r \<longrightarrow>
        authorization r
          = Some (''Bearer '' @ template P (get (user (handleLogin P r1 r2 s)) ''id'')))
   \<and> (\<forall>r \<in> set (issued s (handleRegister P r1 r2 s)). referral_request r \<longrightarrow>
        authorization r
          = Some (''Bearer '' @ template P (get (user (handleRegister P r1 r2 s)) ''id'')))
   \<and> (\<forall>r \<in> set (issued s (handleSubmit P r1 r2 s)). referral_request r \<longrightarrow>
        authorization r
          = Some (''Bearer '' @ template P (get (user (handleSubmit P r1 r2 s)) ''id'')))
   \<and> (\<forall>r \<in> set (issued s (generateReferralLink P r1 r2 s)). referral_request r \<longrightarrow>
        authorization r = Some (''Bearer '' @ template P (get (user s) ''id'')))
   \<and> (\<forall>r \<in> set (issued s (state_of (useEffect_mount P s))). referral_request r \<longrightarrow>
        authorization r
          = Some (''Bearer '' @ template P (get (user (state_of (useEffect_mount P s))) ''id'')))
   \<and> (\<forall>r \<in> set (issued s (state_of (useEffect_mount' P s))). referral_request r \<longrightarrow>
        authorization r
          = Some (''Bearer '' @ template P (get (user (state_of (useEffect_mount' P s))) ''id'')))"
proof -
  have t: "template P (JStr i) = i" by (simp add: template_def)
  have l: "\<forall>r \<in> set (issued s (handleLogin P r1 r2 s)). referral_request r \<longrightarrow>
        authorization r
          = Some (''Bearer '' @ template P (get (user (handleLogin P r1 r2 s)) ''id''))"
    using handleLogin_sent [of P r1 r2 s] by auto
  have r: "\<forall>r \<in> set (issued s (handleRegister P r1 r2 s)). referral_request r \<longrightarrow>
        authorization r
          = Some (''Bearer '' @ template P (get (user (handleRegister P r1 r2 s)) ''id''))"
    using handleRegister_sent [of P r1 r2 s] by auto
  have u: "\<forall>r \<in> set (issued s (handleSubmit P r1 r2 s)). referral_request r \<longrightarrow>
        authorization r
          = Some (''Bearer '' @ template P (get (user (handleSubmit P r1 r2 s)) ''id''))"
    using handleSubmit_sent [of P r1 r2 s] by auto
  have g: "\<forall>r \<in> set (issued s (generateReferralLink P r1 r2 s)). referral_request r \<longrightarrow>
        authorization r = Some (''Bearer '' @ template P (get (user s) ''id''))"
    using generateReferralLink_sent [of P r1 r2 s] by auto
  have m: "\<forall>r \<in> set (issued s (state_of (useEffect_mount P s))). referral_request r \<longrightarrow>
        authorization r
          = Some (''Bearer '' @ template P (get (user (state_of (useEffect_mount P s))) ''id''))"
    using useEffect_mount_sent [of P s] by auto
  have m': "\<forall>r \<in> set (issued s (state_of (useEffect_mount' P s))). referral_request r \<longrightarrow>
        authorization r
          = Some (''Bearer '' @ template P (get (user (state_of (useEffect_mount' P s))) ''id''))"
    using useEffect_mount'_sent [of P s] by auto
  from t l r u g m m' show ?thesis by blast
qed

theorem C6_witness:
  "issued (initial Map.empty)
       (handleLogin browser (Inr login_ok) (Inr summary_ok) (initial Map.empty))
     = [login_request (formData (initial Map.empty)), summary_request browser (JStr ''u1'')]
   \<and> referral_request (summary_request browser (JStr ''u1''))
   \<and> authorization (summary_request browser (JStr ''u1'')) = Some ''Bearer u1''
   \<and> get (user (handleLogin browser (Inr login_ok) (Inr summary_ok) (initial Map.empty))) ''id''
       = JStr ''u1''"
proof -
  have a: "truthy (get login_ok ''success'')" by (simp add: login_ok_def)
  have b: "\<not> nullish (get login_ok ''user'')" by (simp add: login_ok_def u1_def nullish_def)
  have c: "storage_accepts browser st k v" for st k v by (simp add: browser_def)
  have d: "get (get login_ok ''user'') ''id'' = JStr ''u1''" by (simp add: login_ok_def u1_def)
  have e: "requests (handleLogin browser (Inr login_ok) r2 s)
      = requests s @ [login_request (formData s), summary_request browser (JStr ''u1'')]"
    for r2 s
    using a b
    by (simp add: handleLogin_def handleLogin_settle_success c d handleLogin_finish_def
          fetchReferralData_settle_frame fetchReferralData_begin_def handleLogin_begin_def
          setters Let_def)
  have f: "get (user (handleLogin browser (Inr login_ok) r2 s)) ''id'' = JStr ''u1''" for r2 s
    using a b
    by (simp add: handleLogin_def handleLogin_settle_success c d handleLogin_finish_def
          fetchReferralData_settle_frame fetchReferralData_begin_def setters)
  show ?thesis
    using C6_bearer_is_user_id
      [of browser "''u1''" "initial Map.empty" "Inr login_ok" "Inr summary_ok"]
    by (simp add: issued_append [OF e] f)
qed

section \<open>The loading flag\<close>



























end
